theory Spec2Isabelle
  imports Main
begin

section \<open>Study Buddy: one run of the Streamlit script \<^verbatim>\<open>app2.py\<close>\<close>

text \<open>
  The program is a Streamlit script: every user action runs the whole script once, top to
  bottom, against the session state left by the previous run. The model below is that one
  run, as a function of
  \<^item> the values the widgets return in this run (text boxes, the file uploader, the buttons),
  \<^item> the session state at the start of the run,
  \<^item> the answer of the remote model to a prompt and the result of parsing an upload,
  and it returns the session state at the end of the run together with the trace of what the
  run showed and which prompts it sent.

  A Python \<^verbatim>\<open>str\<close> is modelled as a \<^typ>\<open>string\<close> whose elements stand for its characters
  (code points below 256), so \<^const>\<open>length\<close> is \<^verbatim>\<open>len\<close>. An exception is modelled by its
  message \<^verbatim>\<open>str(e)\<close>, the only thing the script reads of it. The configuration preamble of
  the script (lines 11 to 27), which stops the script before any widget exists when the API
  key or the model is missing, and the constant page furniture (title, headers, descriptions)
  are not part of the model.
\<close>

subsection \<open>Strings: \<^verbatim>\<open>str(int)\<close>, \<^verbatim>\<open>str.strip()\<close>, \<^verbatim>\<open>str.split()\<close>\<close>

text \<open>The decimal numeral of a length, as an f-string prints it.\<close>

function str_nat :: "nat \<Rightarrow> string" where
  "str_nat n =
     (if n < 10 then [''0123456789'' ! n]
      else str_nat (n div 10) @ [''0123456789'' ! (n mod 10)])"
  by pat_completeness auto
termination
  by (relation "measure (\<lambda>n. n)") auto

declare str_nat.simps [simp del]

text \<open>
  The characters \<^verbatim>\<open>str.isspace\<close> accepts, among the code points below 256: tab, line feed,
  vertical tab, form feed, carriage return, the four separators 28 to 31, space, next line
  (133) and no-break space (160).
\<close>

definition isspace :: "char \<Rightarrow> bool" where
  "isspace c = (of_char c \<in> {9, 10, 11, 12, 13, 28, 29, 30, 31, 32, 133, 160 :: nat})"

definition strip :: "string \<Rightarrow> string" where
  "strip s = rev (dropWhile isspace (rev (dropWhile isspace s)))"

function py_split :: "string \<Rightarrow> string list" where
  "py_split s =
     (if dropWhile isspace s = [] then []
      else takeWhile (\<lambda>c. \<not> isspace c) (dropWhile isspace s)
           # py_split (dropWhile (\<lambda>c. \<not> isspace c) (dropWhile isspace s)))"
  by pat_completeness auto
termination
proof (relation "measure length")
  show "wf (measure length)" by simp
next
  fix s :: string
  assume ne: "dropWhile isspace s \<noteq> []"
  then obtain c cs where eq: "dropWhile isspace s = c # cs"
    by (cases "dropWhile isspace s") auto
  have "\<not> isspace (hd (dropWhile isspace s))"
    using ne by (rule hd_dropWhile)
  then have "\<not> isspace c" using eq by simp
  then have "length (dropWhile (\<lambda>c. \<not> isspace c) (c # cs)) \<le> length cs"
    by (simp add: length_dropWhile_le)
  moreover have "length (dropWhile isspace s) \<le> length s"
    by (rule length_dropWhile_le)
  ultimately show "(dropWhile (\<lambda>c. \<not> isspace c) (dropWhile isspace s), s) \<in> measure length"
    using eq by simp
qed

declare py_split.simps [simp del]

subsection \<open>The external collaborators\<close>

text \<open>
  An uploaded file is what \<^verbatim>\<open>pypdf\<close> makes of it: \<^verbatim>\<open>PdfReader(f)\<close> raises or gives the pages,
  and \<^verbatim>\<open>page.extract_text()\<close> raises or gives the text of a page. \<open>Inl\<close> carries the message
  of the exception.
\<close>

type_synonym exn = string

datatype page = Page (extract_text: "exn + string")

datatype upload = Upload (PdfReader: "exn + page list")

text \<open>
  The remote model: \<^verbatim>\<open>model.generate_content(prompt).text\<close> raises or gives the generated text.
  The function is the answer of the endpoint during one run, prompt by prompt; nothing is
  assumed about it.
\<close>

type_synonym model = "string \<Rightarrow> exn + string"

subsection \<open>Session state, widgets, trace\<close>

text \<open>
  \<^verbatim>\<open>st.session_state\<close>: one field per key the script uses; \<open>None\<close> is a key that is not in
  the dictionary yet. The slot \<open>uploaded_file\<close> holds Python's \<^verbatim>\<open>None\<close> or a file.
\<close>

record session_state =
  explain_input :: "string option"
  explain_output :: "string option"
  summarize_input :: "string option"
  summarize_output :: "string option"
  uploaded_file :: "upload option option"
  quiz_topic_input :: "string option"
  quiz_flashcard_output :: "string option"

text \<open>
  What the widgets return in one run, named by their keys (the buttons without a key by
  their labels): the three inputs, the uploader, and for each button whether it was clicked.
\<close>

record widgets =
  concept_area :: string
  explain_concept :: bool
  clear_explain :: bool
  notes_area :: string
  pdf_uploader :: "upload option"
  summarize_button :: bool
  clear_summarize :: bool
  quiz_topic :: string
  generate_quiz :: bool
  generate_flashcards :: bool
  clear_quiz :: bool

text \<open>
  The trace of a run: the elements it puts on the page, in order, and the prompts it sends
  (\<open>GenerateContent\<close>).
\<close>

datatype event =
    StWrite string
  | StCaption string
  | StWarning string
  | StError string
  | StInfo string
  | StException exn
  | StSpinner string
  | StSubheader string
  | StTextArea string string string
  | StExpander string string
  | GenerateContent string

text \<open>
  How a run ends: it reaches the end of the script, or \<^verbatim>\<open>st.experimental_rerun()\<close> stops it
  and asks for another run, or reading a missing key of the session state raises.
\<close>

datatype control = Running | Rerun | Crashed

record outcome =
  state :: session_state
  events :: "event list"
  ctl :: control

subsection \<open>Helper functions of the script\<close>

text \<open>Lines 30 to 35: the loop over the pages, with its accumulator.\<close>

fun extract_pages :: "page list \<Rightarrow> string \<Rightarrow> exn + string" where
  "extract_pages [] text_content = Inr text_content"
| "extract_pages (p # ps) text_content =
     (case extract_text p of
        Inl e \<Rightarrow> Inl e
      | Inr t \<Rightarrow> extract_pages ps (text_content @ (t @ [CHR 0x0A])))"

definition extract_text_from_pdf :: "upload \<Rightarrow> exn + string" where
  "extract_text_from_pdf uploaded =
     (case PdfReader uploaded of
        Inl e \<Rightarrow> Inl e
      | Inr pages \<Rightarrow> extract_pages pages [])"

text \<open>Lines 50 to 70: the output area, a copyable text area and an expander, or a placeholder.\<close>

definition display_ai_output :: "string \<Rightarrow> string \<Rightarrow> string \<Rightarrow> event list" where
  "display_ai_output output_text label key_prefix =
     (if output_text \<noteq> [] then
        [StSubheader label,
         StTextArea ''Copy to Clipboard:'' (key_prefix @ ''_copy_area'') output_text,
         StExpander ''Read Full Output'' output_text]
      else [StInfo ''AI output will appear here.''])"

text \<open>
  \<^verbatim>\<open>if k not in st.session_state: st.session_state.k = d\<close>, and the read
  \<^verbatim>\<open>display_ai_output(st.session_state.k, ...)\<close>, which raises on a missing key.
\<close>

definition init_slot :: "'a \<Rightarrow> 'a option \<Rightarrow> 'a option" where
  "init_slot d slot = (case slot of None \<Rightarrow> Some d | Some v \<Rightarrow> Some v)"

definition show_slot :: "session_state \<Rightarrow> event list \<Rightarrow> string option \<Rightarrow> string \<Rightarrow> string \<Rightarrow> outcome" where
  "show_slot s evs slot label key_prefix =
     (case slot of
        Some output_text \<Rightarrow>
          \<lparr>state = s, events = evs @ display_ai_output output_text label key_prefix, ctl = Running\<rparr>
      | None \<Rightarrow> \<lparr>state = s, events = evs, ctl = Crashed\<rparr>)"

subsection \<open>The four prompt templates\<close>

definition explain_prompt :: "string \<Rightarrow> string" where
  "explain_prompt concept_input =
     ''Explain the following concept in simple terms for a student, focusing on clarity and easy understanding: ''
     @ concept_input"

definition summarize_prompt :: "string \<Rightarrow> string" where
  "summarize_prompt content_to_summarize =
     ''Summarize the following study notes concisely, highlighting the main points and key takeaways. Aim for a summary that captures the essence of the notes: ''
     @ content_to_summarize"

definition quiz_prompt :: "string \<Rightarrow> string" where
  "quiz_prompt topic =
     ''Generate a short quiz (3-4 questions) with answers on the topic of '' @ [CHR 0x27]
     @ topic @ [CHR 0x27]
     @ ''. Include various question types like multiple-choice, true/false, and short answer. Clearly label questions and answers.''"

definition flashcards_prompt :: "string \<Rightarrow> string" where
  "flashcards_prompt topic =
     ''Generate 3-4 flashcards for studying '' @ [CHR 0x27] @ topic @ [CHR 0x27]
     @ ''. For each flashcard, provide a clear question/term on the '' @ [CHR 0x22] @ ''front''
     @ [CHR 0x22] @ '' and its answer/definition on the '' @ [CHR 0x22] @ ''back'' @ [CHR 0x22]
     @ ''. Format each flashcard clearly, for example:'' @ [CHR 0x0A]
     @ ''                **Flashcard 1 - Front:** [Question]'' @ [CHR 0x0A]
     @ ''                **Flashcard 1 - Back:** [Answer]''"

subsection \<open>Feature 1: Explain a Concept (lines 73 to 115)\<close>

text \<open>The body of \<^verbatim>\<open>if col_exp_1.button("Explain Concept")\<close>, lines 95 to 107.\<close>

definition explain_handler :: "model \<Rightarrow> string \<Rightarrow> session_state \<Rightarrow> session_state \<times> event list" where
  "explain_handler generate_content concept_input s =
     (if concept_input \<noteq> [] then
        (case generate_content (explain_prompt concept_input) of
           Inr response_text \<Rightarrow>
             (s\<lparr>explain_input := Some concept_input, explain_output := Some response_text\<rparr>,
              [StSpinner ''AI is thinking...'', GenerateContent (explain_prompt concept_input)])
         | Inl e \<Rightarrow>
             (s\<lparr>explain_input := Some concept_input, explain_output := Some (''Error: '' @ e)\<rparr>,
              [StSpinner ''AI is thinking...'', GenerateContent (explain_prompt concept_input),
               StError (''Error generating explanation: '' @ e)]))
      else
        (s\<lparr>explain_output := Some []\<rparr>, [StWarning ''Please enter a concept to explain.'']))"

text \<open>Lines 78 to 81.\<close>

definition init_explain :: "session_state \<Rightarrow> session_state" where
  "init_explain s =
     s\<lparr>explain_input := init_slot [] (explain_input s),
       explain_output := init_slot [] (explain_output s)\<rparr>"

definition explain_section :: "model \<Rightarrow> widgets \<Rightarrow> session_state \<Rightarrow> outcome" where
  "explain_section generate_content w s0 =
     (let s1 = init_explain s0;
          (s2, evs) = (if explain_concept w then explain_handler generate_content (concept_area w) s1
                       else (s1, []))
      in if clear_explain w then
           \<lparr>state = s2\<lparr>explain_input := Some [], explain_output := Some []\<rparr>,
            events = evs, ctl = Rerun\<rparr>
         else show_slot s2 evs (explain_output s2) ''Explanation Output'' ''explain'')"

subsection \<open>Feature 2: Summarize Notes (lines 119 to 205)\<close>

text \<open>
  Lines 161 to 178: where the content comes from. The result is the content, the session
  state and what was shown.
\<close>

definition acquire_content :: "widgets \<Rightarrow> session_state \<Rightarrow> string \<times> session_state \<times> event list" where
  "acquire_content w s =
     (case pdf_uploader w of
        Some uploaded \<Rightarrow>
          (case extract_text_from_pdf uploaded of
             Inr content_to_summarize \<Rightarrow>
               (if strip content_to_summarize = [] then
                  ([],
                   s\<lparr>uploaded_file := Some (Some uploaded),
                     summarize_output := Some ''Error: Could not extract readable text from PDF.''\<rparr>,
                   [StWrite ''Processing PDF...'',
                    StWarning ''Could not extract readable text from the PDF. Please try pasting notes directly.''])
                else
                  (content_to_summarize, s\<lparr>uploaded_file := Some (Some uploaded)\<rparr>,
                   [StWrite ''Processing PDF...'']))
           | Inl e \<Rightarrow>
               ([], s\<lparr>summarize_output := Some (''Error reading PDF: '' @ e)\<rparr>,
                [StWrite ''Processing PDF...'',
                 StError (''Error reading PDF: '' @ e
                          @ ''. Please ensure it's a valid PDF or try pasting text.'')]))
      | None \<Rightarrow>
          (if notes_area w \<noteq> [] then (notes_area w, s\<lparr>summarize_input := Some (notes_area w)\<rparr>, [])
           else ([], s, [])))"

definition MAX_CHARS_FOR_GEMINI :: nat where
  "MAX_CHARS_FOR_GEMINI = 50000"

text \<open>Lines 180 to 203: truncation, the call, and the branch for no content.\<close>

definition summarize_content :: "model \<Rightarrow> string \<Rightarrow> session_state \<Rightarrow> session_state \<times> event list" where
  "summarize_content generate_content content_to_summarize s =
     (if content_to_summarize \<noteq> [] then
        (let original_length = length content_to_summarize;
             warned = (if original_length > MAX_CHARS_FOR_GEMINI then
                         [StWarning (''Your input is very long ('' @ str_nat original_length
                            @ '' characters). '' @ ''Summarizing the first ''
                            @ str_nat MAX_CHARS_FOR_GEMINI @ '' characters to fit AI limits. ''
                            @ ''For very long documents, consider summarizing in chunks.'')]
                       else []);
             content = (if original_length > MAX_CHARS_FOR_GEMINI
                        then take MAX_CHARS_FOR_GEMINI content_to_summarize
                        else content_to_summarize)
         in (case generate_content (summarize_prompt content) of
               Inr response_text \<Rightarrow>
                 (s\<lparr>summarize_output := Some response_text\<rparr>,
                  warned @ [StSpinner ''AI is summarizing...'', GenerateContent (summarize_prompt content)])
             | Inl e \<Rightarrow>
                 (s\<lparr>summarize_output := Some (''Error: '' @ e)\<rparr>,
                  warned @ [StSpinner ''AI is summarizing...'', GenerateContent (summarize_prompt content),
                            StError (''Error generating summary: '' @ e), StException e])))
      else
        (s\<lparr>summarize_output := Some []\<rparr>,
         [StWarning ''Please paste notes or upload a PDF document to summarize.'']))"

text \<open>The body of \<^verbatim>\<open>if summarize_button\<close>, lines 160 to 203.\<close>

definition summarize_handler :: "model \<Rightarrow> widgets \<Rightarrow> session_state \<Rightarrow> session_state \<times> event list" where
  "summarize_handler generate_content w s =
     (let (content_to_summarize, s1, evs1) = acquire_content w s;
          (s2, evs2) = summarize_content generate_content content_to_summarize s1
      in (s2, evs1 @ evs2))"

text \<open>Lines 140 to 142: the character and word count under the notes box.\<close>

definition notes_caption :: "string \<Rightarrow> event" where
  "notes_caption notes_input =
     StCaption (''Characters: '' @ str_nat (length notes_input) @ '' | Words: ''
                @ str_nat (length (py_split notes_input)))"

text \<open>Lines 123 to 128.\<close>

definition init_summarize :: "session_state \<Rightarrow> session_state" where
  "init_summarize s =
     s\<lparr>summarize_input := init_slot [] (summarize_input s),
       summarize_output := init_slot [] (summarize_output s),
       uploaded_file := init_slot None (uploaded_file s)\<rparr>"

definition summarize_section :: "model \<Rightarrow> widgets \<Rightarrow> session_state \<Rightarrow> outcome" where
  "summarize_section generate_content w s0 =
     (let s1 = init_summarize s0;
          evs1 = [notes_caption (notes_area w)]
      in if clear_summarize w then
           \<lparr>state = s1\<lparr>summarize_input := Some [], summarize_output := Some [],
                        uploaded_file := Some None\<rparr>,
            events = evs1, ctl = Rerun\<rparr>
         else
           (let (s2, evs2) = (if summarize_button w then summarize_handler generate_content w s1
                              else (s1, []))
            in show_slot s2 (evs1 @ evs2) (summarize_output s2) ''Summary Output'' ''summarize''))"

subsection \<open>Feature 3: Generate Quizzes/Flashcards (lines 209 to 267)\<close>

definition quiz_handler :: "model \<Rightarrow> string \<Rightarrow> session_state \<Rightarrow> session_state \<times> event list" where
  "quiz_handler generate_content topic s =
     (if topic \<noteq> [] then
        (case generate_content (quiz_prompt topic) of
           Inr response_text \<Rightarrow>
             (s\<lparr>quiz_topic_input := Some topic, quiz_flashcard_output := Some response_text\<rparr>,
              [StSpinner ''AI is creating a quiz...'', GenerateContent (quiz_prompt topic)])
         | Inl e \<Rightarrow>
             (s\<lparr>quiz_topic_input := Some topic, quiz_flashcard_output := Some (''Error: '' @ e)\<rparr>,
              [StSpinner ''AI is creating a quiz...'', GenerateContent (quiz_prompt topic),
               StError (''Error generating quiz: '' @ e)]))
      else
        (s\<lparr>quiz_flashcard_output := Some []\<rparr>, [StWarning ''Please enter a topic for the quiz.'']))"

definition flashcards_handler :: "model \<Rightarrow> string \<Rightarrow> session_state \<Rightarrow> session_state \<times> event list" where
  "flashcards_handler generate_content topic s =
     (if topic \<noteq> [] then
        (case generate_content (flashcards_prompt topic) of
           Inr response_text \<Rightarrow>
             (s\<lparr>quiz_topic_input := Some topic, quiz_flashcard_output := Some response_text\<rparr>,
              [StSpinner ''AI is making flashcards...'', GenerateContent (flashcards_prompt topic)])
         | Inl e \<Rightarrow>
             (s\<lparr>quiz_topic_input := Some topic, quiz_flashcard_output := Some (''Error: '' @ e)\<rparr>,
              [StSpinner ''AI is making flashcards...'', GenerateContent (flashcards_prompt topic),
               StError (''Error generating flashcards: '' @ e)]))
      else
        (s\<lparr>quiz_flashcard_output := Some []\<rparr>, [StWarning ''Please enter a topic for flashcards.'']))"

text \<open>Lines 213 to 216.\<close>

definition init_quiz :: "session_state \<Rightarrow> session_state" where
  "init_quiz s =
     s\<lparr>quiz_topic_input := init_slot [] (quiz_topic_input s),
       quiz_flashcard_output := init_slot [] (quiz_flashcard_output s)\<rparr>"

definition quiz_section :: "model \<Rightarrow> widgets \<Rightarrow> session_state \<Rightarrow> outcome" where
  "quiz_section generate_content w s0 =
     (let s1 = init_quiz s0;
          (s2, evs2) = (if generate_quiz w then quiz_handler generate_content (quiz_topic w) s1
                        else (s1, []));
          (s3, evs3) = (if generate_flashcards w then flashcards_handler generate_content (quiz_topic w) s2
                        else (s2, []))
      in if clear_quiz w then
           \<lparr>state = s3\<lparr>quiz_topic_input := Some [], quiz_flashcard_output := Some []\<rparr>,
            events = evs2 @ evs3, ctl = Rerun\<rparr>
         else show_slot s3 (evs2 @ evs3) (quiz_flashcard_output s3) ''Quiz / Flashcard Output'' ''quiz'')"

subsection \<open>The script, and a click\<close>

text \<open>
  The three sections run in order; a section runs only if the script is still running, and
  its trace follows the trace so far.
\<close>

definition and_then :: "outcome \<Rightarrow> (session_state \<Rightarrow> outcome) \<Rightarrow> outcome" where
  "and_then r section =
     (if ctl r = Running then
        (let r' = section (state r) in r'\<lparr>events := events r @ events r'\<rparr>)
      else r)"

definition script :: "model \<Rightarrow> widgets \<Rightarrow> session_state \<Rightarrow> outcome" where
  "script generate_content w s =
     and_then (and_then (explain_section generate_content w s)
                        (summarize_section generate_content w))
              (quiz_section generate_content w)"

text \<open>
  Streamlit runs the script once for a click, and in that run the clicked button, and no
  other, returns \<^verbatim>\<open>True\<close>. When the run asks for a rerun, the script runs once more with no
  button clicked, against the widget values \<open>w'\<close> of that second run.
\<close>

datatype button =
    ExplainConcept | ClearExplain | SummarizeContent | ClearSummarize
  | GenerateQuiz | GenerateFlashcards | ClearQuiz

definition press :: "button option \<Rightarrow> widgets \<Rightarrow> widgets" where
  "press b w =
     w\<lparr>explain_concept := (b = Some ExplainConcept),
       clear_explain := (b = Some ClearExplain),
       summarize_button := (b = Some SummarizeContent),
       clear_summarize := (b = Some ClearSummarize),
       generate_quiz := (b = Some GenerateQuiz),
       generate_flashcards := (b = Some GenerateFlashcards),
       clear_quiz := (b = Some ClearQuiz)\<rparr>"

definition click :: "model \<Rightarrow> button \<Rightarrow> widgets \<Rightarrow> widgets \<Rightarrow> session_state \<Rightarrow> outcome" where
  "click generate_content b w w' s =
     (let r = script generate_content (press (Some b) w) s
      in if ctl r = Rerun then
           (let r' = script generate_content (press None w') (state r)
            in r'\<lparr>events := events r @ events r'\<rparr>)
         else r)"

text \<open>What a trace sent to the model, and the warnings it showed.\<close>

fun model_calls :: "event list \<Rightarrow> string list" where
  "model_calls [] = []"
| "model_calls (GenerateContent prompt # evs) = prompt # model_calls evs"
| "model_calls (_ # evs) = model_calls evs"

fun warnings :: "event list \<Rightarrow> string list" where
  "warnings [] = []"
| "warnings (StWarning msg # evs) = msg # warnings evs"
| "warnings (_ # evs) = warnings evs"

subsection \<open>The specification's reading of the extractor\<close>

text \<open>
  The texts of the pages in page order, each separated from the next by one line feed: the
  words of the specification, to be compared with \<^const>\<open>extract_text_from_pdf\<close>.
\<close>

fun join_lines :: "string list \<Rightarrow> string" where
  "join_lines [] = []"
| "join_lines [t] = t"
| "join_lines (t # ts) = t @ [CHR 0x0A] @ join_lines ts"

subsection \<open>Concrete sessions, widgets and models\<close>

text \<open>A session before its first run, a page nobody has typed into, and three models.\<close>

definition fresh_session :: session_state where
  "fresh_session =
     \<lparr>explain_input = None, explain_output = None, summarize_input = None,
      summarize_output = None, uploaded_file = None, quiz_topic_input = None,
      quiz_flashcard_output = None\<rparr>"

definition blank_widgets :: widgets where
  "blank_widgets =
     \<lparr>concept_area = [], explain_concept = False, clear_explain = False,
      notes_area = [], pdf_uploader = None, summarize_button = False, clear_summarize = False,
      quiz_topic = [], generate_quiz = False, generate_flashcards = False, clear_quiz = False\<rparr>"

definition echo_model :: model where
  "echo_model prompt = Inr prompt"

definition silent_model :: model where
  "silent_model prompt = Inr []"

definition failing_model :: model where
  "failing_model prompt = Inl ''429 quota exceeded''"

text \<open>A session in which every feature has been used once.\<close>

definition used_session :: session_state where
  "used_session =
     \<lparr>explain_input = Some ''Osmosis'', explain_output = Some ''Water moves.'',
      summarize_input = Some ''Chapter 3'', summarize_output = Some ''Cells divide.'',
      uploaded_file = Some None, quiz_topic_input = Some ''Mitosis'',
      quiz_flashcard_output = Some ''Q1. What is mitosis?''\<rparr>"

text \<open>A scanned document: two pages, one blank and one empty.\<close>

definition scanned_pdf :: upload where
  "scanned_pdf = Upload (Inr [Page (Inr '' ''), Page (Inr [])])"

text \<open>A document of one page without text.\<close>

definition blank_page_pdf :: upload where
  "blank_page_pdf = Upload (Inr [Page (Inr [])])"

definition two_page_pdf :: upload where
  "two_page_pdf = Upload (Inr [Page (Inr ''Cells''), Page (Inr ''divide'')])"

text \<open>The widgets of the scenarios: a concept, all three inputs filled, notes beside a PDF.\<close>

definition photosynthesis :: widgets where
  "photosynthesis = blank_widgets\<lparr>concept_area := ''Photosynthesis''\<rparr>"

definition filled_widgets :: widgets where
  "filled_widgets =
     blank_widgets\<lparr>concept_area := ''Osmosis'', notes_area := ''Chapter 3'',
       quiz_topic := ''Mitosis''\<rparr>"

definition notes_and_pdf :: widgets where
  "notes_and_pdf =
     blank_widgets\<lparr>notes_area := ''My pasted notes'', pdf_uploader := Some two_page_pdf\<rparr>"

section \<open>Properties\<close>

subsection \<open>Slots, traces and sections\<close>

lemma init_slot_eq: "init_slot d x = Some (case x of None \<Rightarrow> d | Some v \<Rightarrow> v)"
  by (simp add: init_slot_def split: option.split)

lemma show_slot_Some:
  "show_slot s evs (Some t) label key_prefix =
     \<lparr>state = s, events = evs @ display_ai_output t label key_prefix, ctl = Running\<rparr>"
  by (simp add: show_slot_def)

lemma model_calls_append: "model_calls (xs @ ys) = model_calls xs @ model_calls ys"
  by (induction xs rule: model_calls.induct) simp_all

lemma warnings_append: "warnings (xs @ ys) = warnings xs @ warnings ys"
  by (induction xs rule: warnings.induct) simp_all

lemma model_calls_display: "model_calls (display_ai_output t label key_prefix) = []"
  by (simp add: display_ai_output_def)

lemma warnings_display: "warnings (display_ai_output t label key_prefix) = []"
  by (simp add: display_ai_output_def)

lemmas init_defs = init_explain_def init_summarize_def init_quiz_def init_slot_eq
lemmas section_defs = script_def and_then_def explain_section_def summarize_section_def
  quiz_section_def press_def show_slot_Some
lemmas trace_simps = model_calls_append warnings_append model_calls_display warnings_display
  notes_caption_def

lemma str_nat_MAX: "str_nat MAX_CHARS_FOR_GEMINI = ''50000''"
  by (simp add: MAX_CHARS_FOR_GEMINI_def str_nat.simps)

lemma acquire_content_press: "acquire_content (press b w) s = acquire_content w s"
  by (simp add: acquire_content_def press_def split: option.split)

lemma summarize_handler_press: "summarize_handler m (press b w) s = summarize_handler m w s"
  by (simp add: summarize_handler_def acquire_content_press)

lemma acquire_content_fst: "fst (acquire_content w s) = fst (acquire_content w s')"
  by (simp add: acquire_content_def split: option.split sum.split)

lemma acquire_content_quiet:
  assumes "acquire_content w s = (c, s1, evs1)" and "c \<noteq> []"
  shows "model_calls evs1 = []" and "warnings evs1 = []"
  using assms by (auto simp: acquire_content_def split: option.splits sum.splits if_splits)

lemma summarize_content_calls:
  assumes "c \<noteq> []"
  shows "model_calls (snd (summarize_content m c s)) = [summarize_prompt (take 50000 c)]"
  using assms
  by (simp add: summarize_content_def Let_def MAX_CHARS_FOR_GEMINI_def model_calls_append
        split: sum.split)

lemma summarize_content_warnings:
  assumes "c \<noteq> []"
  shows "warnings (snd (summarize_content m c s)) =
           (if 50000 < length c then
              [''Your input is very long ('' @ str_nat (length c)
               @ '' characters). Summarizing the first 50000 characters to fit AI limits. For very long documents, consider summarizing in chunks.'']
            else [])"
  using assms
  by (simp add: summarize_content_def Let_def str_nat_MAX warnings_append split: sum.split)
     (simp add: MAX_CHARS_FOR_GEMINI_def)

lemma summarize_content_output:
  "\<exists>t. summarize_output (fst (summarize_content m c s)) = Some t"
  by (simp add: summarize_content_def Let_def split: sum.split)

lemma summarize_handler_output:
  "\<exists>t. summarize_output (fst (summarize_handler m w s)) = Some t"
  by (simp add: summarize_handler_def case_prod_beta summarize_content_output)

text \<open>The run in which Summarize Content was clicked, in terms of the handler.\<close>

lemma script_summarize:
  assumes "summarize_handler m w (init_summarize (init_explain s)) = (s2, evs)"
    and "summarize_output s2 = Some t"
  shows "script m (press (Some SummarizeContent) w) s =
           \<lparr>state = init_quiz s2,
            events = display_ai_output (case explain_output s of None \<Rightarrow> [] | Some v \<Rightarrow> v)
                       ''Explanation Output'' ''explain''
                     @ notes_caption (notes_area w) # evs
                     @ display_ai_output t ''Summary Output'' ''summarize''
                     @ display_ai_output (case quiz_flashcard_output s2 of None \<Rightarrow> [] | Some v \<Rightarrow> v)
                         ''Quiz / Flashcard Output'' ''quiz'',
            ctl = Running\<rparr>"
proof -
  have h: "summarize_handler m (press (Some SummarizeContent) w) (init_summarize (init_explain s)) = (s2, evs)"
    using assms(1) by (simp add: summarize_handler_press)
  have e: "explain_section m (press (Some SummarizeContent) w) s =
        \<lparr>state = init_explain s,
         events = display_ai_output (case explain_output s of None \<Rightarrow> [] | Some v \<Rightarrow> v)
                       ''Explanation Output'' ''explain'', ctl = Running\<rparr>"
    by (simp add: explain_section_def press_def init_explain_def init_slot_eq show_slot_Some)
  have su: "summarize_section m (press (Some SummarizeContent) w) (init_explain s) =
        \<lparr>state = s2, events = notes_caption (notes_area w) # evs
                     @ display_ai_output t ''Summary Output'' ''summarize'', ctl = Running\<rparr>"
    using h assms(2)
    by (simp add: summarize_section_def show_slot_Some press_def)
  have q: "quiz_section m (press (Some SummarizeContent) w) s2 =
        \<lparr>state = init_quiz s2,
         events = display_ai_output (case quiz_flashcard_output s2 of None \<Rightarrow> [] | Some v \<Rightarrow> v)
                         ''Quiz / Flashcard Output'' ''quiz'', ctl = Running\<rparr>"
    by (simp add: quiz_section_def press_def init_quiz_def init_slot_eq show_slot_Some)
  show ?thesis
    by (simp add: script_def and_then_def e su q)
qed

text \<open>A run in which one button was clicked, in terms of the handler of that button.\<close>

lemma script_idle:
  "script m (press None w) s =
     \<lparr>state = init_quiz (init_summarize (init_explain s)),
      events = display_ai_output (case explain_output s of None \<Rightarrow> [] | Some v \<Rightarrow> v)
                 ''Explanation Output'' ''explain''
               @ notes_caption (notes_area w)
               # display_ai_output (case summarize_output s of None \<Rightarrow> [] | Some v \<Rightarrow> v)
                   ''Summary Output'' ''summarize''
               @ display_ai_output (case quiz_flashcard_output s of None \<Rightarrow> [] | Some v \<Rightarrow> v)
                   ''Quiz / Flashcard Output'' ''quiz'',
      ctl = Running\<rparr>"
  by (simp add: section_defs init_defs)

lemma script_explain:
  assumes "explain_handler m (concept_area w) (init_explain s) = (s2, evs)"
    and "explain_output s2 = Some t"
  shows "script m (press (Some ExplainConcept) w) s =
           \<lparr>state = init_quiz (init_summarize s2),
            events = evs @ display_ai_output t ''Explanation Output'' ''explain''
                     @ notes_caption (notes_area w)
                     # display_ai_output (case summarize_output s2 of None \<Rightarrow> [] | Some v \<Rightarrow> v)
                         ''Summary Output'' ''summarize''
                     @ display_ai_output (case quiz_flashcard_output s2 of None \<Rightarrow> [] | Some v \<Rightarrow> v)
                         ''Quiz / Flashcard Output'' ''quiz'',
            ctl = Running\<rparr>"
  using assms by (simp add: section_defs init_summarize_def init_quiz_def init_slot_eq)

lemma script_quiz:
  assumes "quiz_handler m (quiz_topic w) (init_quiz (init_summarize (init_explain s))) = (s2, evs)"
    and "quiz_flashcard_output s2 = Some t"
  shows "script m (press (Some GenerateQuiz) w) s =
           \<lparr>state = s2,
            events = display_ai_output (case explain_output s of None \<Rightarrow> [] | Some v \<Rightarrow> v)
                       ''Explanation Output'' ''explain''
                     @ notes_caption (notes_area w)
                     # display_ai_output (case summarize_output s of None \<Rightarrow> [] | Some v \<Rightarrow> v)
                         ''Summary Output'' ''summarize''
                     @ evs @ display_ai_output t ''Quiz / Flashcard Output'' ''quiz'',
            ctl = Running\<rparr>"
  using assms by (simp add: section_defs init_explain_def init_summarize_def init_slot_eq)

lemma script_flashcards:
  assumes "flashcards_handler m (quiz_topic w) (init_quiz (init_summarize (init_explain s))) = (s2, evs)"
    and "quiz_flashcard_output s2 = Some t"
  shows "script m (press (Some GenerateFlashcards) w) s =
           \<lparr>state = s2,
            events = display_ai_output (case explain_output s of None \<Rightarrow> [] | Some v \<Rightarrow> v)
                       ''Explanation Output'' ''explain''
                     @ notes_caption (notes_area w)
                     # display_ai_output (case summarize_output s of None \<Rightarrow> [] | Some v \<Rightarrow> v)
                         ''Summary Output'' ''summarize''
                     @ evs @ display_ai_output t ''Quiz / Flashcard Output'' ''quiz'',
            ctl = Running\<rparr>"
  using assms by (simp add: section_defs init_explain_def init_summarize_def init_slot_eq)

lemma script_clear_explain:
  "script m (press (Some ClearExplain) w) s =
     \<lparr>state = (init_explain s)\<lparr>explain_input := Some [], explain_output := Some []\<rparr>,
      events = [], ctl = Rerun\<rparr>"
  by (simp add: section_defs)

lemma script_clear_summarize:
  "script m (press (Some ClearSummarize) w) s =
     \<lparr>state = (init_summarize (init_explain s))
                \<lparr>summarize_input := Some [], summarize_output := Some [], uploaded_file := Some None\<rparr>,
      events = display_ai_output (case explain_output s of None \<Rightarrow> [] | Some v \<Rightarrow> v)
                 ''Explanation Output'' ''explain'' @ [notes_caption (notes_area w)],
      ctl = Rerun\<rparr>"
  by (simp add: section_defs init_explain_def init_slot_eq)

lemma script_clear_quiz:
  "script m (press (Some ClearQuiz) w) s =
     \<lparr>state = (init_quiz (init_summarize (init_explain s)))
                \<lparr>quiz_topic_input := Some [], quiz_flashcard_output := Some []\<rparr>,
      events = display_ai_output (case explain_output s of None \<Rightarrow> [] | Some v \<Rightarrow> v)
                 ''Explanation Output'' ''explain''
               @ notes_caption (notes_area w)
               # display_ai_output (case summarize_output s of None \<Rightarrow> [] | Some v \<Rightarrow> v)
                   ''Summary Output'' ''summarize'',
      ctl = Rerun\<rparr>"
  by (simp add: section_defs init_explain_def init_summarize_def init_slot_eq)

lemma explain_handler_empty:
  "explain_handler m [] s = (s\<lparr>explain_output := Some []\<rparr>, [StWarning ''Please enter a concept to explain.''])"
  by (simp add: explain_handler_def)

lemma quiz_handler_empty:
  "quiz_handler m [] s = (s\<lparr>quiz_flashcard_output := Some []\<rparr>, [StWarning ''Please enter a topic for the quiz.''])"
  by (simp add: quiz_handler_def)

lemma flashcards_handler_empty:
  "flashcards_handler m [] s = (s\<lparr>quiz_flashcard_output := Some []\<rparr>, [StWarning ''Please enter a topic for flashcards.''])"
  by (simp add: flashcards_handler_def)

lemma summarize_handler_empty:
  assumes "notes_area w = []" and "pdf_uploader w = None"
  shows "summarize_handler m w s =
           (s\<lparr>summarize_output := Some []\<rparr>,
            [StWarning ''Please paste notes or upload a PDF document to summarize.''])"
  using assms by (simp add: summarize_handler_def acquire_content_def summarize_content_def)

lemmas handler_defs = explain_handler_def summarize_handler_def acquire_content_def
  summarize_content_def quiz_handler_def flashcards_handler_def

text \<open>The extractor and \<^const>\<open>strip\<close>.\<close>

lemma extract_pages_texts:
  "map extract_text pages = map Inr texts \<Longrightarrow>
   extract_pages pages acc = Inr (acc @ concat (map (\<lambda>t. t @ [CHR 0x0A]) texts))"
proof (induction pages arbitrary: acc texts)
  case Nil
  then show ?case by simp
next
  case (Cons p ps)
  then obtain t ts where texts: "texts = t # ts" and p: "extract_text p = Inr t"
    and ps: "map extract_text ps = map Inr ts"
    by (cases texts) auto
  show ?case using Cons.IH [OF ps] texts p by simp
qed

lemma concat_lines_join:
  "texts \<noteq> [] \<Longrightarrow> concat (map (\<lambda>t. t @ [CHR 0x0A]) texts) = join_lines texts @ [CHR 0x0A]"
  by (induction texts rule: join_lines.induct) simp_all

lemma strip_empty_iff: "strip s = [] \<longleftrightarrow> (\<forall>c \<in> set s. isspace c)"
proof
  assume "strip s = []"
  then have "\<forall>c \<in> set (dropWhile isspace s). isspace c"
    by (simp add: strip_def)
  then have "dropWhile isspace s = []"
    using hd_dropWhile [of isspace s] hd_in_set [of "dropWhile isspace s"] by blast
  then show "\<forall>c \<in> set s. isspace c"
    by simp
next
  assume "\<forall>c \<in> set s. isspace c"
  then show "strip s = []"
    by (auto simp: strip_def dest: set_dropWhileD)
qed

text \<open>What each handler does on a readable input, on an unreadable PDF, and on a failing model.\<close>

lemma summarize_handler_unreadable:
  assumes "pdf_uploader w = Some uploaded" and "extract_text_from_pdf uploaded = Inr c"
    and "strip c = []"
  shows "summarize_handler m w s =
           (s\<lparr>uploaded_file := Some (Some uploaded), summarize_output := Some []\<rparr>,
            [StWrite ''Processing PDF...'',
             StWarning ''Could not extract readable text from the PDF. Please try pasting notes directly.'',
             StWarning ''Please paste notes or upload a PDF document to summarize.''])"
  using assms by (simp add: summarize_handler_def acquire_content_def summarize_content_def)

lemma explain_handler_failure:
  assumes "explain_handler m x s = (s2, evs)" and "p \<in> set (model_calls evs)" and "m p = Inl e"
  shows "explain_output s2 = Some (''Error: '' @ e) \<and>
         StError (''Error generating explanation: '' @ e) \<in> set evs \<and> model_calls evs = [p]"
  using assms by (auto simp: explain_handler_def split: if_splits sum.splits)

lemma quiz_handler_failure:
  assumes "quiz_handler m x s = (s2, evs)" and "p \<in> set (model_calls evs)" and "m p = Inl e"
  shows "quiz_flashcard_output s2 = Some (''Error: '' @ e) \<and>
         StError (''Error generating quiz: '' @ e) \<in> set evs \<and> model_calls evs = [p]"
  using assms by (auto simp: quiz_handler_def split: if_splits sum.splits)

lemma flashcards_handler_failure:
  assumes "flashcards_handler m x s = (s2, evs)" and "p \<in> set (model_calls evs)" and "m p = Inl e"
  shows "quiz_flashcard_output s2 = Some (''Error: '' @ e) \<and>
         StError (''Error generating flashcards: '' @ e) \<in> set evs \<and> model_calls evs = [p]"
  using assms by (auto simp: flashcards_handler_def split: if_splits sum.splits)

lemma summarize_content_failure:
  assumes "summarize_content m c s = (s2, evs)" and "p \<in> set (model_calls evs)" and "m p = Inl e"
  shows "summarize_output s2 = Some (''Error: '' @ e) \<and>
         StError (''Error generating summary: '' @ e) \<in> set evs \<and> StException e \<in> set evs \<and>
         model_calls evs = [p]"
  using assms
  by (auto simp: summarize_content_def Let_def model_calls_append split: if_splits sum.splits)

lemma acquire_content_no_calls: "model_calls (snd (snd (acquire_content w s))) = []"
  by (simp add: acquire_content_def split: option.split sum.split)

lemma summarize_handler_failure:
  assumes "summarize_handler m w s = (s2, evs)" and "p \<in> set (model_calls evs)" and "m p = Inl e"
  shows "summarize_output s2 = Some (''Error: '' @ e) \<and>
         StError (''Error generating summary: '' @ e) \<in> set evs \<and> StException e \<in> set evs \<and>
         model_calls evs = [p]"
proof -
  obtain c s1 evs1 where a: "acquire_content w s = (c, s1, evs1)"
    by (cases "acquire_content w s") auto
  obtain evs2 where sc: "summarize_content m c s1 = (s2, evs2)" and evs: "evs = evs1 @ evs2"
    using assms(1) a by (cases "summarize_content m c s1") (auto simp: summarize_handler_def)
  have q: "model_calls evs1 = []"
    using acquire_content_no_calls [of w s] a by simp
  then have "p \<in> set (model_calls evs2)"
    using assms(2) evs by (simp add: model_calls_append)
  from summarize_content_failure [OF sc this assms(3)] q evs
  show ?thesis by (simp add: model_calls_append)
qed

lemma explain_handler_output: "\<exists>t. explain_output (fst (explain_handler m x s)) = Some t"
  by (simp add: explain_handler_def split: sum.split)

lemma quiz_handler_output: "\<exists>t. quiz_flashcard_output (fst (quiz_handler m x s)) = Some t"
  by (simp add: quiz_handler_def split: sum.split)

lemma flashcards_handler_output: "\<exists>t. quiz_flashcard_output (fst (flashcards_handler m x s)) = Some t"
  by (simp add: flashcards_handler_def split: sum.split)

lemma acquire_content_upload:
  assumes "pdf_uploader w = Some uploaded"
  shows "fst (acquire_content w s) =
           (case extract_text_from_pdf uploaded of
              Inl e \<Rightarrow> []
            | Inr c \<Rightarrow> if strip c = [] then [] else c)"
    and "summarize_input (fst (snd (acquire_content w s))) = summarize_input s"
    and "acquire_content (w\<lparr>notes_area := other_notes\<rparr>) s = acquire_content w s"
  using assms by (simp_all add: acquire_content_def split: sum.split)

lemma summarize_content_input: "summarize_input (fst (summarize_content m c s)) = summarize_input s"
  by (simp add: summarize_content_def Let_def split: sum.split)

lemma summarize_content_empty: "model_calls (snd (summarize_content m [] s)) = []"
  by (simp add: summarize_content_def)

lemma quiz_handler_success:
  assumes "topic \<noteq> []" and "m (quiz_prompt topic) = Inr T"
  shows "quiz_handler m topic s =
           (s\<lparr>quiz_topic_input := Some topic, quiz_flashcard_output := Some T\<rparr>,
            [StSpinner ''AI is creating a quiz...'', GenerateContent (quiz_prompt topic)])"
  using assms by (simp add: quiz_handler_def)

lemma flashcards_handler_success:
  assumes "topic \<noteq> []" and "m (flashcards_prompt topic) = Inr T"
  shows "flashcards_handler m topic s =
           (s\<lparr>quiz_topic_input := Some topic, quiz_flashcard_output := Some T\<rparr>,
            [StSpinner ''AI is making flashcards...'', GenerateContent (flashcards_prompt topic)])"
  using assms by (simp add: flashcards_handler_def)

text \<open>No run reads a slot that is missing: the script never stops on a key error.\<close>

lemma ctl_show_slot: "ctl (show_slot s evs (Some t) label key_prefix) = Running"
  by (simp add: show_slot_Some)

lemma explain_section_ctl: "ctl (explain_section m w s) \<noteq> Crashed"
proof -
  obtain t where "explain_output (fst (explain_handler m (concept_area w) (init_explain s))) = Some t"
    using explain_handler_output by blast
  then show ?thesis
    by (simp add: explain_section_def Let_def case_prod_beta show_slot_Some init_explain_def init_slot_eq)
qed

lemma summarize_section_ctl: "ctl (summarize_section m w s) \<noteq> Crashed"
proof -
  obtain t where "summarize_output (fst (summarize_handler m w (init_summarize s))) = Some t"
    using summarize_handler_output by blast
  then show ?thesis
    by (simp add: summarize_section_def Let_def case_prod_beta show_slot_Some init_summarize_def init_slot_eq)
qed

lemma quiz_section_ctl: "ctl (quiz_section m w s) \<noteq> Crashed"
proof -
  obtain t where t: "quiz_flashcard_output (fst (quiz_handler m (quiz_topic w) (init_quiz s))) = Some t"
    using quiz_handler_output by blast
  obtain u where u: "quiz_flashcard_output (fst (flashcards_handler m (quiz_topic w) (init_quiz s))) = Some u"
    using flashcards_handler_output by blast
  obtain v where v: "quiz_flashcard_output (fst (flashcards_handler m (quiz_topic w)
      (fst (quiz_handler m (quiz_topic w) (init_quiz s))))) = Some v"
    using flashcards_handler_output by blast
  show ?thesis
    using t u v
    by (simp add: quiz_section_def Let_def case_prod_beta show_slot_Some init_quiz_def init_slot_eq)
qed

lemma script_does_not_raise: "ctl (script m w s) \<noteq> Crashed"
  using explain_section_ctl [of m w s] summarize_section_ctl [of m w] quiz_section_ctl [of m w]
  by (simp add: script_def and_then_def Let_def)

subsection \<open>Claim C1: the Summarize payload is cut at 50,000 characters\<close>

text \<open>
  C1, as amended. When Summarize Content is clicked and the content to summarize (the pasted
  notes, or the text of the uploaded PDF) is not empty, the run sends exactly one prompt: the
  summarize template of line 193 followed by the first 50,000 characters of the content.
  When the content is longer than 50,000 characters the payload has exactly 50,000
  characters and the run shows one warning, which gives the length of the input and the
  threshold 50000; when it is not empty and has at most 50,000 characters the payload is the
  content itself and the run shows no warning.
\<close>

theorem summarize_payload_truncated_at_50000:
  assumes "fst (acquire_content w s) = c" and "c \<noteq> []"
  shows "let r = script m (press (Some SummarizeContent) w) s in
           model_calls (events r) =
             [''Summarize the following study notes concisely, highlighting the main points and key takeaways. Aim for a summary that captures the essence of the notes: ''
              @ take 50000 c] \<and>
           (50000 < length c \<longrightarrow>
              length (take 50000 c) = 50000 \<and>
              warnings (events r) =
                [''Your input is very long ('' @ str_nat (length c)
                 @ '' characters). Summarizing the first 50000 characters to fit AI limits. For very long documents, consider summarizing in chunks.'']) \<and>
           (length c \<le> 50000 \<longrightarrow> take 50000 c = c \<and> warnings (events r) = [])"
proof -
  define s0 where "s0 = init_summarize (init_explain s)"
  obtain c' s1 evs1 where a: "acquire_content w s0 = (c', s1, evs1)"
    by (cases "acquire_content w s0") auto
  have c': "c' = c"
    using a assms(1) acquire_content_fst [of w s0 s] by simp
  obtain s2 evs2 where sc: "summarize_content m c s1 = (s2, evs2)"
    by (cases "summarize_content m c s1") auto
  have h: "summarize_handler m w s0 = (s2, evs1 @ evs2)"
    using a c' sc by (simp add: summarize_handler_def)
  obtain t where t: "summarize_output s2 = Some t"
    using summarize_content_output [of m c s1] sc by auto
  have calls: "model_calls (evs1 @ evs2) =
      [''Summarize the following study notes concisely, highlighting the main points and key takeaways. Aim for a summary that captures the essence of the notes: ''
       @ take 50000 c]"
    using acquire_content_quiet(1) [OF a] c' assms(2) summarize_content_calls [OF assms(2), of m s1] sc
    by (simp add: model_calls_append summarize_prompt_def)
  have warns: "warnings (evs1 @ evs2) =
           (if 50000 < length c then
              [''Your input is very long ('' @ str_nat (length c)
               @ '' characters). Summarizing the first 50000 characters to fit AI limits. For very long documents, consider summarizing in chunks.'']
            else [])"
    using acquire_content_quiet(2) [OF a] c' assms(2) summarize_content_warnings [OF assms(2), of m s1] sc
    by (simp add: warnings_append)
  have r: "events (script m (press (Some SummarizeContent) w) s) =
             display_ai_output (case explain_output s of None \<Rightarrow> [] | Some v \<Rightarrow> v)
                       ''Explanation Output'' ''explain''
                     @ notes_caption (notes_area w) # (evs1 @ evs2)
                     @ display_ai_output t ''Summary Output'' ''summarize''
                     @ display_ai_output (case quiz_flashcard_output s2 of None \<Rightarrow> [] | Some v \<Rightarrow> v)
                         ''Quiz / Flashcard Output'' ''quiz''"
    using script_summarize [OF h [unfolded s0_def] t] by simp
  have mc: "model_calls (events (script m (press (Some SummarizeContent) w) s)) = model_calls (evs1 @ evs2)"
    unfolding r by (simp add: trace_simps)
  have wn: "warnings (events (script m (press (Some SummarizeContent) w) s)) = warnings (evs1 @ evs2)"
    unfolding r by (simp add: trace_simps)
  show ?thesis
    unfolding Let_def mc wn calls warns by simp
qed

theorem summarize_payload_truncated_at_50000_witness:
  "model_calls (events (script echo_model
      (press (Some SummarizeContent) (blank_widgets\<lparr>notes_area := replicate 60000 (CHR ''a'')\<rparr>))
      fresh_session))
   = [''Summarize the following study notes concisely, highlighting the main points and key takeaways. Aim for a summary that captures the essence of the notes: ''
      @ replicate 50000 (CHR ''a'')] \<and>
   warnings (events (script echo_model
      (press (Some SummarizeContent) (blank_widgets\<lparr>notes_area := replicate 60000 (CHR ''a'')\<rparr>))
      fresh_session))
   = [''Your input is very long (60000 characters). Summarizing the first 50000 characters to fit AI limits. For very long documents, consider summarizing in chunks.''] \<and>
   model_calls (events (script echo_model (press (Some SummarizeContent) filled_widgets) fresh_session))
   = [''Summarize the following study notes concisely, highlighting the main points and key takeaways. Aim for a summary that captures the essence of the notes: Chapter 3''] \<and>
   warnings (events (script echo_model (press (Some SummarizeContent) filled_widgets) fresh_session)) = []"
proof -
  have a: "fst (acquire_content (blank_widgets\<lparr>notes_area := replicate 60000 (CHR ''a'')\<rparr>) fresh_session)
        = replicate 60000 (CHR ''a'')"
    by (simp add: acquire_content_def blank_widgets_def)
  have n: "replicate 60000 (CHR ''a'') \<noteq> []"
    by simp
  have s: "str_nat 60000 = ''60000''"
    by (simp add: str_nat.simps)
  have b: "fst (acquire_content filled_widgets fresh_session) = ''Chapter 3''"
    by (simp add: acquire_content_def filled_widgets_def blank_widgets_def)
  have k: "''Chapter 3'' \<noteq> []"
    by simp
  show ?thesis
    using summarize_payload_truncated_at_50000 [OF a n, of echo_model]
      summarize_payload_truncated_at_50000 [OF b k, of echo_model]
    by (simp add: Let_def s)
qed

text \<open>
  C1 as stated fails at the empty input, which has at most 50,000 characters: with an empty
  notes box and no uploaded file nothing is sent, and the run shows a warning.
\<close>

theorem empty_notes_are_not_sent:
  "length (notes_area blank_widgets) \<le> 50000 \<and>
   pdf_uploader blank_widgets = None \<and>
   fst (acquire_content blank_widgets used_session) = [] \<and>
   model_calls (events (script echo_model (press (Some SummarizeContent) blank_widgets) used_session)) = [] \<and>
   warnings (events (script echo_model (press (Some SummarizeContent) blank_widgets) used_session))
     = [''Please paste notes or upload a PDF document to summarize.'']"
  by (simp add: section_defs init_defs handler_defs blank_widgets_def used_session_def
        trace_simps Let_def)

subsection \<open>Claim C2: a typed text of white space is sent to the model\<close>

text \<open>
  C2 says that an input that is empty or consists of white space only is never sent to the
  model and only earns a warning. The script does not do this for typed text: it tests a
  typed text for emptiness only, so a single blank typed into the concept box, the notes box
  or the topic field is interpolated into the prompt and sent, and no warning is shown. The
  sibling path does what these miss: the text extracted from a PDF is stripped before the
  test (lines 167 to 170), so the one line feed that a page without text yields is rejected
  when it comes from a PDF and sent when it is typed into the notes box.
\<close>

theorem whitespace_input_is_sent_to_model:
  "strip '' '' = [] \<and>
   model_calls (events (script echo_model
      (press (Some ExplainConcept) (blank_widgets\<lparr>concept_area := '' ''\<rparr>)) fresh_session))
     = [''Explain the following concept in simple terms for a student, focusing on clarity and easy understanding: '' @ '' ''] \<and>
   warnings (events (script echo_model
      (press (Some ExplainConcept) (blank_widgets\<lparr>concept_area := '' ''\<rparr>)) fresh_session)) = [] \<and>
   model_calls (events (script echo_model
      (press (Some SummarizeContent) (blank_widgets\<lparr>notes_area := '' ''\<rparr>)) fresh_session))
     = [''Summarize the following study notes concisely, highlighting the main points and key takeaways. Aim for a summary that captures the essence of the notes: '' @ '' ''] \<and>
   warnings (events (script echo_model
      (press (Some SummarizeContent) (blank_widgets\<lparr>notes_area := '' ''\<rparr>)) fresh_session)) = [] \<and>
   model_calls (events (script echo_model
      (press (Some GenerateQuiz) (blank_widgets\<lparr>quiz_topic := '' ''\<rparr>)) fresh_session))
     = [''Generate a short quiz (3-4 questions) with answers on the topic of '' @ [CHR 0x27]
        @ '' '' @ [CHR 0x27]
        @ ''. Include various question types like multiple-choice, true/false, and short answer. Clearly label questions and answers.''] \<and>
   warnings (events (script echo_model
      (press (Some GenerateQuiz) (blank_widgets\<lparr>quiz_topic := '' ''\<rparr>)) fresh_session)) = [] \<and>
   model_calls (events (script echo_model
      (press (Some GenerateFlashcards) (blank_widgets\<lparr>quiz_topic := '' ''\<rparr>)) fresh_session))
     = [''Generate 3-4 flashcards for studying '' @ [CHR 0x27] @ '' '' @ [CHR 0x27]
        @ ''. For each flashcard, provide a clear question/term on the '' @ [CHR 0x22] @ ''front''
        @ [CHR 0x22] @ '' and its answer/definition on the '' @ [CHR 0x22] @ ''back'' @ [CHR 0x22]
        @ ''. Format each flashcard clearly, for example:'' @ [CHR 0x0A]
        @ ''                **Flashcard 1 - Front:** [Question]'' @ [CHR 0x0A]
        @ ''                **Flashcard 1 - Back:** [Answer]''] \<and>
   warnings (events (script echo_model
      (press (Some GenerateFlashcards) (blank_widgets\<lparr>quiz_topic := '' ''\<rparr>)) fresh_session)) = [] \<and>
   extract_text_from_pdf blank_page_pdf = Inr [CHR 0x0A] \<and>
   strip [CHR 0x0A] = [] \<and>
   model_calls (events (script echo_model
      (press (Some SummarizeContent) (blank_widgets\<lparr>pdf_uploader := Some blank_page_pdf\<rparr>)) fresh_session))
     = [] \<and>
   model_calls (events (script echo_model
      (press (Some SummarizeContent) (blank_widgets\<lparr>notes_area := [CHR 0x0A]\<rparr>)) fresh_session))
     = [''Summarize the following study notes concisely, highlighting the main points and key takeaways. Aim for a summary that captures the essence of the notes: '' @ [CHR 0x0A]]"
  by (simp add: strip_def isspace_def section_defs init_defs handler_defs blank_widgets_def
        fresh_session_def echo_model_def trace_simps MAX_CHARS_FOR_GEMINI_def Let_def
        explain_prompt_def summarize_prompt_def quiz_prompt_def flashcards_prompt_def
        extract_text_from_pdf_def blank_page_pdf_def)

subsection \<open>Claim C3: a failed validation empties the output slot\<close>

text \<open>
  C3, as amended. When an action button is clicked on an empty input (for Summarize Content:
  an empty notes box and no uploaded file), the output slot of the feature is set to the
  empty string, the run shows one warning with the message of that button, and no prompt is
  sent.
\<close>

theorem empty_input_clears_output_slot:
  "(concept_area w = [] \<longrightarrow>
      (let r = script m (press (Some ExplainConcept) w) s in
         explain_output (state r) = Some [] \<and>
         warnings (events r) = [''Please enter a concept to explain.''] \<and>
         model_calls (events r) = [])) \<and>
   (notes_area w = [] \<and> pdf_uploader w = None \<longrightarrow>
      (let r = script m (press (Some SummarizeContent) w) s in
         summarize_output (state r) = Some [] \<and>
         warnings (events r) = [''Please paste notes or upload a PDF document to summarize.''] \<and>
         model_calls (events r) = [])) \<and>
   (quiz_topic w = [] \<longrightarrow>
      (let r = script m (press (Some GenerateQuiz) w) s in
         quiz_flashcard_output (state r) = Some [] \<and>
         warnings (events r) = [''Please enter a topic for the quiz.''] \<and>
         model_calls (events r) = [])) \<and>
   (quiz_topic w = [] \<longrightarrow>
      (let r = script m (press (Some GenerateFlashcards) w) s in
         quiz_flashcard_output (state r) = Some [] \<and>
         warnings (events r) = [''Please enter a topic for flashcards.''] \<and>
         model_calls (events r) = []))"
proof (intro conjI impI)
  assume "concept_area w = []"
  then have "explain_handler m (concept_area w) (init_explain s) =
      ((init_explain s)\<lparr>explain_output := Some []\<rparr>, [StWarning ''Please enter a concept to explain.''])"
    by (simp add: explain_handler_empty)
  from script_explain [OF this]
  show "let r = script m (press (Some ExplainConcept) w) s in
         explain_output (state r) = Some [] \<and>
         warnings (events r) = [''Please enter a concept to explain.''] \<and>
         model_calls (events r) = []"
    by (simp add: trace_simps init_summarize_def init_quiz_def)
next
  assume "notes_area w = [] \<and> pdf_uploader w = None"
  then have "summarize_handler m w (init_summarize (init_explain s)) =
      ((init_summarize (init_explain s))\<lparr>summarize_output := Some []\<rparr>,
       [StWarning ''Please paste notes or upload a PDF document to summarize.''])"
    by (simp add: summarize_handler_empty)
  from script_summarize [OF this]
  show "let r = script m (press (Some SummarizeContent) w) s in
         summarize_output (state r) = Some [] \<and>
         warnings (events r) = [''Please paste notes or upload a PDF document to summarize.''] \<and>
         model_calls (events r) = []"
    by (simp add: trace_simps init_quiz_def)
next
  assume "quiz_topic w = []"
  then have "quiz_handler m (quiz_topic w) (init_quiz (init_summarize (init_explain s))) =
      ((init_quiz (init_summarize (init_explain s)))\<lparr>quiz_flashcard_output := Some []\<rparr>,
       [StWarning ''Please enter a topic for the quiz.''])"
    by (simp add: quiz_handler_empty)
  from script_quiz [OF this]
  show "let r = script m (press (Some GenerateQuiz) w) s in
         quiz_flashcard_output (state r) = Some [] \<and>
         warnings (events r) = [''Please enter a topic for the quiz.''] \<and>
         model_calls (events r) = []"
    by (simp add: trace_simps)
next
  assume "quiz_topic w = []"
  then have "flashcards_handler m (quiz_topic w) (init_quiz (init_summarize (init_explain s))) =
      ((init_quiz (init_summarize (init_explain s)))\<lparr>quiz_flashcard_output := Some []\<rparr>,
       [StWarning ''Please enter a topic for flashcards.''])"
    by (simp add: flashcards_handler_empty)
  from script_flashcards [OF this]
  show "let r = script m (press (Some GenerateFlashcards) w) s in
         quiz_flashcard_output (state r) = Some [] \<and>
         warnings (events r) = [''Please enter a topic for flashcards.''] \<and>
         model_calls (events r) = []"
    by (simp add: trace_simps)
qed

theorem empty_input_clears_output_slot_witness:
  "explain_output (state (script failing_model (press (Some ExplainConcept) blank_widgets) used_session)) = Some [] \<and>
   warnings (events (script failing_model (press (Some ExplainConcept) blank_widgets) used_session))
     = [''Please enter a concept to explain.''] \<and>
   model_calls (events (script failing_model (press (Some ExplainConcept) blank_widgets) used_session)) = [] \<and>
   summarize_output (state (script failing_model (press (Some SummarizeContent) blank_widgets) used_session)) = Some [] \<and>
   warnings (events (script failing_model (press (Some SummarizeContent) blank_widgets) used_session))
     = [''Please paste notes or upload a PDF document to summarize.''] \<and>
   model_calls (events (script failing_model (press (Some SummarizeContent) blank_widgets) used_session)) = [] \<and>
   quiz_flashcard_output (state (script failing_model (press (Some GenerateQuiz) blank_widgets) used_session)) = Some [] \<and>
   warnings (events (script failing_model (press (Some GenerateQuiz) blank_widgets) used_session))
     = [''Please enter a topic for the quiz.''] \<and>
   model_calls (events (script failing_model (press (Some GenerateQuiz) blank_widgets) used_session)) = [] \<and>
   quiz_flashcard_output (state (script failing_model (press (Some GenerateFlashcards) blank_widgets) used_session)) = Some [] \<and>
   warnings (events (script failing_model (press (Some GenerateFlashcards) blank_widgets) used_session))
     = [''Please enter a topic for flashcards.''] \<and>
   model_calls (events (script failing_model (press (Some GenerateFlashcards) blank_widgets) used_session)) = []"
proof -
  have w: "concept_area blank_widgets = []" "notes_area blank_widgets = [] \<and> pdf_uploader blank_widgets = None"
    "quiz_topic blank_widgets = []"
    by (simp_all add: blank_widgets_def)
  show ?thesis
    using empty_input_clears_output_slot [of blank_widgets failing_model used_session] w
    by (simp add: Let_def)
qed

text \<open>
  C3 as stated fails: after Explain Concept is clicked on an empty input, the output slot
  holds the empty string, not the warning message; the warning is on the page only, and the
  output area of the feature shows its placeholder.
\<close>

theorem empty_input_output_slot_is_not_the_warning:
  "explain_output (state (script echo_model (press (Some ExplainConcept) blank_widgets) used_session)) = Some [] \<and>
   explain_output (state (script echo_model (press (Some ExplainConcept) blank_widgets) used_session))
     \<noteq> Some ''Please enter a concept to explain.'' \<and>
   events (script echo_model (press (Some ExplainConcept) blank_widgets) used_session) =
     [StWarning ''Please enter a concept to explain.'',
      StInfo ''AI output will appear here.'',
      StCaption ''Characters: 0 | Words: 0'',
      StSubheader ''Summary Output'',
      StTextArea ''Copy to Clipboard:'' ''summarize_copy_area'' ''Cells divide.'',
      StExpander ''Read Full Output'' ''Cells divide.'',
      StSubheader ''Quiz / Flashcard Output'',
      StTextArea ''Copy to Clipboard:'' ''quiz_copy_area'' ''Q1. What is mitosis?'',
      StExpander ''Read Full Output'' ''Q1. What is mitosis?'']"
  by (simp add: section_defs init_defs explain_handler_def blank_widgets_def used_session_def
        display_ai_output_def notes_caption_def str_nat.simps py_split.simps)

subsection \<open>Claim C4: Clear resets the slots of its own feature only\<close>

text \<open>
  C4. In every session state, a click on the Clear button of a feature (the run it starts
  and the rerun that run asks for) ends with the input slot and the output slot of that
  feature empty, and for Summarize with the uploaded-file slot holding \<^verbatim>\<open>None\<close>; every
  slot of the other features holds what it held before, where a slot that was not in the
  session state yet is created with its empty value, as by \<^const>\<open>init_slot\<close> in any run.
\<close>

theorem clear_resets_own_slots_only:
  "(let r = click m ClearExplain w w' s in
      ctl r = Running \<and>
      explain_input (state r) = Some [] \<and> explain_output (state r) = Some [] \<and>
      summarize_input (state r) = init_slot [] (summarize_input s) \<and>
      summarize_output (state r) = init_slot [] (summarize_output s) \<and>
      uploaded_file (state r) = init_slot None (uploaded_file s) \<and>
      quiz_topic_input (state r) = init_slot [] (quiz_topic_input s) \<and>
      quiz_flashcard_output (state r) = init_slot [] (quiz_flashcard_output s)) \<and>
   (let r = click m ClearSummarize w w' s in
      ctl r = Running \<and>
      summarize_input (state r) = Some [] \<and> summarize_output (state r) = Some [] \<and>
      uploaded_file (state r) = Some None \<and>
      explain_input (state r) = init_slot [] (explain_input s) \<and>
      explain_output (state r) = init_slot [] (explain_output s) \<and>
      quiz_topic_input (state r) = init_slot [] (quiz_topic_input s) \<and>
      quiz_flashcard_output (state r) = init_slot [] (quiz_flashcard_output s)) \<and>
   (let r = click m ClearQuiz w w' s in
      ctl r = Running \<and>
      quiz_topic_input (state r) = Some [] \<and> quiz_flashcard_output (state r) = Some [] \<and>
      explain_input (state r) = init_slot [] (explain_input s) \<and>
      explain_output (state r) = init_slot [] (explain_output s) \<and>
      summarize_input (state r) = init_slot [] (summarize_input s) \<and>
      summarize_output (state r) = init_slot [] (summarize_output s) \<and>
      uploaded_file (state r) = init_slot None (uploaded_file s))"
proof -
  have e: "state (click m ClearExplain w w' s) =
      init_quiz (init_summarize (init_explain
        ((init_explain s)\<lparr>explain_input := Some [], explain_output := Some []\<rparr>)))"
    and ec: "ctl (click m ClearExplain w w' s) = Running"
    by (simp_all add: click_def script_clear_explain script_idle)
  have su: "state (click m ClearSummarize w w' s) =
      init_quiz (init_summarize (init_explain
        ((init_summarize (init_explain s))
           \<lparr>summarize_input := Some [], summarize_output := Some [], uploaded_file := Some None\<rparr>)))"
    and suc: "ctl (click m ClearSummarize w w' s) = Running"
    by (simp_all add: click_def script_clear_summarize script_idle)
  have q: "state (click m ClearQuiz w w' s) =
      init_quiz (init_summarize (init_explain
        ((init_quiz (init_summarize (init_explain s)))
           \<lparr>quiz_topic_input := Some [], quiz_flashcard_output := Some []\<rparr>)))"
    and qc: "ctl (click m ClearQuiz w w' s) = Running"
    by (simp_all add: click_def script_clear_quiz script_idle)
  show ?thesis
    unfolding Let_def e ec su suc q qc by (simp add: init_defs)
qed

theorem clear_resets_own_slots_only_witness:
  "explain_input (state (click echo_model ClearSummarize blank_widgets blank_widgets used_session)) = Some ''Osmosis'' \<and>
   explain_output (state (click echo_model ClearSummarize blank_widgets blank_widgets used_session)) = Some ''Water moves.'' \<and>
   summarize_input (state (click echo_model ClearSummarize blank_widgets blank_widgets used_session)) = Some [] \<and>
   summarize_output (state (click echo_model ClearSummarize blank_widgets blank_widgets used_session)) = Some [] \<and>
   uploaded_file (state (click echo_model ClearSummarize blank_widgets blank_widgets used_session)) = Some None \<and>
   quiz_topic_input (state (click echo_model ClearSummarize blank_widgets blank_widgets used_session)) = Some ''Mitosis'' \<and>
   quiz_flashcard_output (state (click echo_model ClearSummarize blank_widgets blank_widgets used_session)) = Some ''Q1. What is mitosis?''"
  using clear_resets_own_slots_only [of echo_model blank_widgets blank_widgets used_session]
  by (simp add: Let_def used_session_def init_slot_def)

subsection \<open>Claim C5: the Photosynthesis scenario\<close>

text \<open>
  C5, as amended. For the input \<^verbatim>\<open>Photosynthesis\<close>, clicking Explain Concept sends exactly
  the prompt \<^verbatim>\<open>Explain the following concept in simple terms for a student, focusing on
  clarity and easy understanding: Photosynthesis\<close>. When the model answers with a text \<open>T\<close>,
  the Explain output slot holds \<open>T\<close>. When \<open>T\<close> is not empty, the Explain section shows the
  copyable text area and the expander, both with the text \<open>T\<close>; when \<open>T\<close> is empty it shows
  neither, but the placeholder \<^verbatim>\<open>AI output will appear here.\<close>
\<close>

theorem explain_scenario_photosynthesis:
  assumes "concept_area w = ''Photosynthesis''"
    and "m ''Explain the following concept in simple terms for a student, focusing on clarity and easy understanding: Photosynthesis'' = Inr T"
  shows "let r = script m (press (Some ExplainConcept) w) s;
             x = explain_section m (press (Some ExplainConcept) w) s
         in model_calls (events r) =
              [''Explain the following concept in simple terms for a student, focusing on clarity and easy understanding: Photosynthesis''] \<and>
            explain_output (state r) = Some T \<and>
            (T \<noteq> [] \<longrightarrow>
               events x =
                 [StSpinner ''AI is thinking...'',
                  GenerateContent ''Explain the following concept in simple terms for a student, focusing on clarity and easy understanding: Photosynthesis'',
                  StSubheader ''Explanation Output'',
                  StTextArea ''Copy to Clipboard:'' ''explain_copy_area'' T,
                  StExpander ''Read Full Output'' T]) \<and>
            (T = [] \<longrightarrow>
               events x =
                 [StSpinner ''AI is thinking...'',
                  GenerateContent ''Explain the following concept in simple terms for a student, focusing on clarity and easy understanding: Photosynthesis'',
                  StInfo ''AI output will appear here.''])"
proof -
  have p: "explain_prompt ''Photosynthesis'' =
      ''Explain the following concept in simple terms for a student, focusing on clarity and easy understanding: Photosynthesis''"
    by (simp add: explain_prompt_def)
  have h: "explain_handler m (concept_area w) (init_explain s) =
      ((init_explain s)\<lparr>explain_input := Some ''Photosynthesis'', explain_output := Some T\<rparr>,
       [StSpinner ''AI is thinking...'', GenerateContent (explain_prompt ''Photosynthesis'')])"
    using assms by (simp add: explain_handler_def p)
  have x: "events (explain_section m (press (Some ExplainConcept) w) s) =
      [StSpinner ''AI is thinking...'', GenerateContent (explain_prompt ''Photosynthesis'')]
      @ display_ai_output T ''Explanation Output'' ''explain''"
    using h by (simp add: explain_section_def press_def show_slot_Some)
  show ?thesis
    unfolding Let_def x using script_explain [OF h]
    by (simp add: trace_simps p init_summarize_def init_quiz_def display_ai_output_def)
qed

theorem explain_scenario_photosynthesis_witness:
  "explain_output (state (script echo_model (press (Some ExplainConcept) photosynthesis) fresh_session))
     = Some ''Explain the following concept in simple terms for a student, focusing on clarity and easy understanding: Photosynthesis'' \<and>
   events (explain_section echo_model (press (Some ExplainConcept) photosynthesis) fresh_session) =
     [StSpinner ''AI is thinking...'',
      GenerateContent ''Explain the following concept in simple terms for a student, focusing on clarity and easy understanding: Photosynthesis'',
      StSubheader ''Explanation Output'',
      StTextArea ''Copy to Clipboard:'' ''explain_copy_area''
        ''Explain the following concept in simple terms for a student, focusing on clarity and easy understanding: Photosynthesis'',
      StExpander ''Read Full Output''
        ''Explain the following concept in simple terms for a student, focusing on clarity and easy understanding: Photosynthesis''] \<and>
   explain_output (state (script silent_model (press (Some ExplainConcept) photosynthesis) fresh_session))
     = Some [] \<and>
   events (explain_section silent_model (press (Some ExplainConcept) photosynthesis) fresh_session) =
     [StSpinner ''AI is thinking...'',
      GenerateContent ''Explain the following concept in simple terms for a student, focusing on clarity and easy understanding: Photosynthesis'',
      StInfo ''AI output will appear here.'']"
proof -
  have w: "concept_area photosynthesis = ''Photosynthesis''"
    by (simp add: photosynthesis_def blank_widgets_def)
  have e: "echo_model ''Explain the following concept in simple terms for a student, focusing on clarity and easy understanding: Photosynthesis''
      = Inr ''Explain the following concept in simple terms for a student, focusing on clarity and easy understanding: Photosynthesis''"
    by (simp add: echo_model_def)
  have q: "silent_model ''Explain the following concept in simple terms for a student, focusing on clarity and easy understanding: Photosynthesis''
      = Inr []"
    by (simp add: silent_model_def)
  show ?thesis
    using explain_scenario_photosynthesis [where w = photosynthesis and m = echo_model and s = fresh_session, OF w e]
      explain_scenario_photosynthesis [where w = photosynthesis and m = silent_model and s = fresh_session, OF w q]
    by (simp add: Let_def)
qed

text \<open>
  C5 as stated fails when the model answers with the empty text: the slot holds the empty
  text, and the page has no text area and no expander for the explanation, only the
  placeholder.
\<close>

theorem empty_answer_shows_placeholder:
  "explain_output (state (script silent_model (press (Some ExplainConcept) photosynthesis) fresh_session))
     = Some [] \<and>
   events (script silent_model (press (Some ExplainConcept) photosynthesis) fresh_session) =
     [StSpinner ''AI is thinking...'',
      GenerateContent ''Explain the following concept in simple terms for a student, focusing on clarity and easy understanding: Photosynthesis'',
      StInfo ''AI output will appear here.'',
      StCaption ''Characters: 0 | Words: 0'',
      StInfo ''AI output will appear here.'',
      StInfo ''AI output will appear here.'']"
  by (simp add: section_defs init_defs explain_handler_def explain_prompt_def photosynthesis_def
        blank_widgets_def fresh_session_def silent_model_def display_ai_output_def
        notes_caption_def str_nat.simps py_split.simps)

subsection \<open>Claim C6: the text extracted from a PDF\<close>

text \<open>
  C6, as amended. For an uploaded PDF whose pages yield the texts \<open>p1, ..., pn\<close>, the
  extractor returns the texts in page order, each followed by one line feed. For at least
  one page that is the texts separated by single line feeds (\<^const>\<open>join_lines\<close>) with one
  more line feed at the end; for no page it is the empty text.
\<close>

theorem extractor_ends_each_page_with_newline:
  assumes "PdfReader uploaded = Inr pages" and "map extract_text pages = map Inr texts"
  shows "extract_text_from_pdf uploaded = Inr (concat (map (\<lambda>t. t @ [CHR 0x0A]) texts)) \<and>
         concat (map (\<lambda>t. t @ [CHR 0x0A]) texts) =
           (if texts = [] then [] else join_lines texts @ [CHR 0x0A])"
  using assms extract_pages_texts [of pages texts "[]"]
  by (simp add: extract_text_from_pdf_def concat_lines_join)

theorem extractor_ends_each_page_with_newline_witness:
  "extract_text_from_pdf two_page_pdf = Inr (join_lines [''Cells'', ''divide''] @ [CHR 0x0A])"
proof -
  have r: "PdfReader two_page_pdf = Inr [Page (Inr ''Cells''), Page (Inr ''divide'')]"
    by (simp add: two_page_pdf_def)
  have t: "map extract_text [Page (Inr ''Cells''), Page (Inr ''divide'')] = map Inr [''Cells'', ''divide'']"
    by simp
  show ?thesis
    using extractor_ends_each_page_with_newline [OF r t] by simp
qed

text \<open>
  C6 as stated fails by the line feed after the last page: for the pages \<^verbatim>\<open>Cells\<close> and
  \<^verbatim>\<open>divide\<close> the extractor returns \<^verbatim>\<open>Cells\<close>, a line feed, \<^verbatim>\<open>divide\<close> and a second
  line feed, which \<^const>\<open>join_lines\<close> does not have.
\<close>

theorem extractor_is_not_join_lines:
  "extract_text_from_pdf two_page_pdf = Inr (''Cells'' @ [CHR 0x0A] @ ''divide'' @ [CHR 0x0A]) \<and>
   join_lines [''Cells'', ''divide''] = ''Cells'' @ [CHR 0x0A] @ ''divide'' \<and>
   extract_text_from_pdf two_page_pdf \<noteq> Inr (join_lines [''Cells'', ''divide''])"
  by (simp add: extract_text_from_pdf_def two_page_pdf_def)

subsection \<open>Claim C7: a PDF without readable text\<close>

text \<open>
  C7. When Summarize Content is clicked with an uploaded document whose extracted text is
  empty or consists of white space only, the run sends no prompt and warns the user that no
  readable text could be extracted from the PDF (followed by the warning that asks for notes
  or a PDF).
\<close>

theorem unreadable_pdf_reported_without_model_call:
  assumes "pdf_uploader w = Some uploaded" and "extract_text_from_pdf uploaded = Inr c"
    and "\<forall>ch \<in> set c. isspace ch"
  shows "let r = script m (press (Some SummarizeContent) w) s in
           model_calls (events r) = [] \<and>
           warnings (events r) =
             [''Could not extract readable text from the PDF. Please try pasting notes directly.'',
              ''Please paste notes or upload a PDF document to summarize.'']"
proof -
  have "strip c = []"
    using assms(3) by (simp add: strip_empty_iff)
  from script_summarize [OF summarize_handler_unreadable [OF assms(1,2) this]]
  show ?thesis
    by (simp add: trace_simps)
qed

theorem unreadable_pdf_reported_without_model_call_witness:
  "model_calls (events (script echo_model
      (press (Some SummarizeContent) (blank_widgets\<lparr>pdf_uploader := Some scanned_pdf\<rparr>)) used_session)) = [] \<and>
   warnings (events (script echo_model
      (press (Some SummarizeContent) (blank_widgets\<lparr>pdf_uploader := Some scanned_pdf\<rparr>)) used_session)) =
     [''Could not extract readable text from the PDF. Please try pasting notes directly.'',
      ''Please paste notes or upload a PDF document to summarize.'']"
proof -
  have u: "pdf_uploader (blank_widgets\<lparr>pdf_uploader := Some scanned_pdf\<rparr>) = Some scanned_pdf"
    by simp
  have x: "extract_text_from_pdf scanned_pdf = Inr ('' '' @ [CHR 0x0A] @ [CHR 0x0A])"
    by (simp add: extract_text_from_pdf_def scanned_pdf_def)
  have b: "\<forall>ch \<in> set ('' '' @ [CHR 0x0A] @ [CHR 0x0A]). isspace ch"
    by (simp add: isspace_def)
  show ?thesis
    using unreadable_pdf_reported_without_model_call [OF u x b, of echo_model used_session] by (simp add: Let_def)
qed

subsection \<open>Claim C8: a failing model call\<close>

text \<open>
  C8. For each of the four action buttons: when the run of a click sends a prompt \<open>p\<close> and
  the model call fails on it with an exception whose message is \<open>e\<close>, the output slot of the
  feature holds \<^verbatim>\<open>Error: \<close> followed by \<open>e\<close>, whatever it held before, the page shows an
  error that ends with \<open>e\<close> (for Summarize also the exception itself), and \<open>p\<close> is the only
  prompt the run sends: there is no second attempt.
\<close>

theorem model_failure_stored_and_shown_once:
  "(let r = script m (press (Some ExplainConcept) w) s in
      p \<in> set (model_calls (events r)) \<and> m p = Inl e \<longrightarrow>
        explain_output (state r) = Some (''Error: '' @ e) \<and>
        StError (''Error generating explanation: '' @ e) \<in> set (events r) \<and>
        model_calls (events r) = [p]) \<and>
   (let r = script m (press (Some SummarizeContent) w) s in
      p \<in> set (model_calls (events r)) \<and> m p = Inl e \<longrightarrow>
        summarize_output (state r) = Some (''Error: '' @ e) \<and>
        StError (''Error generating summary: '' @ e) \<in> set (events r) \<and>
        StException e \<in> set (events r) \<and>
        model_calls (events r) = [p]) \<and>
   (let r = script m (press (Some GenerateQuiz) w) s in
      p \<in> set (model_calls (events r)) \<and> m p = Inl e \<longrightarrow>
        quiz_flashcard_output (state r) = Some (''Error: '' @ e) \<and>
        StError (''Error generating quiz: '' @ e) \<in> set (events r) \<and>
        model_calls (events r) = [p]) \<and>
   (let r = script m (press (Some GenerateFlashcards) w) s in
      p \<in> set (model_calls (events r)) \<and> m p = Inl e \<longrightarrow>
        quiz_flashcard_output (state r) = Some (''Error: '' @ e) \<and>
        StError (''Error generating flashcards: '' @ e) \<in> set (events r) \<and>
        model_calls (events r) = [p])"
proof (intro conjI)
  obtain s2 evs where h: "explain_handler m (concept_area w) (init_explain s) = (s2, evs)"
    by (cases "explain_handler m (concept_area w) (init_explain s)") auto
  obtain t where t: "explain_output s2 = Some t"
    using explain_handler_output [of m "concept_area w" "init_explain s"] h by auto
  show "let r = script m (press (Some ExplainConcept) w) s in
      p \<in> set (model_calls (events r)) \<and> m p = Inl e \<longrightarrow>
        explain_output (state r) = Some (''Error: '' @ e) \<and>
        StError (''Error generating explanation: '' @ e) \<in> set (events r) \<and>
        model_calls (events r) = [p]"
    using explain_handler_failure [OF h, of p e]
    by (simp add: script_explain [OF h t] trace_simps init_summarize_def init_quiz_def)
next
  obtain s2 evs where h: "summarize_handler m w (init_summarize (init_explain s)) = (s2, evs)"
    by (cases "summarize_handler m w (init_summarize (init_explain s))") auto
  obtain t where t: "summarize_output s2 = Some t"
    using summarize_handler_output [of m w "init_summarize (init_explain s)"] h by auto
  show "let r = script m (press (Some SummarizeContent) w) s in
      p \<in> set (model_calls (events r)) \<and> m p = Inl e \<longrightarrow>
        summarize_output (state r) = Some (''Error: '' @ e) \<and>
        StError (''Error generating summary: '' @ e) \<in> set (events r) \<and>
        StException e \<in> set (events r) \<and>
        model_calls (events r) = [p]"
    using summarize_handler_failure [OF h, of p e]
    by (simp add: script_summarize [OF h t] trace_simps init_quiz_def)
next
  obtain s2 evs where h: "quiz_handler m (quiz_topic w) (init_quiz (init_summarize (init_explain s))) = (s2, evs)"
    by (cases "quiz_handler m (quiz_topic w) (init_quiz (init_summarize (init_explain s)))") auto
  obtain t where t: "quiz_flashcard_output s2 = Some t"
    using quiz_handler_output [of m "quiz_topic w" "init_quiz (init_summarize (init_explain s))"] h by auto
  show "let r = script m (press (Some GenerateQuiz) w) s in
      p \<in> set (model_calls (events r)) \<and> m p = Inl e \<longrightarrow>
        quiz_flashcard_output (state r) = Some (''Error: '' @ e) \<and>
        StError (''Error generating quiz: '' @ e) \<in> set (events r) \<and>
        model_calls (events r) = [p]"
    using quiz_handler_failure [OF h, of p e]
    by (simp add: script_quiz [OF h t] trace_simps)
next
  obtain s2 evs where h: "flashcards_handler m (quiz_topic w) (init_quiz (init_summarize (init_explain s))) = (s2, evs)"
    by (cases "flashcards_handler m (quiz_topic w) (init_quiz (init_summarize (init_explain s)))") auto
  obtain t where t: "quiz_flashcard_output s2 = Some t"
    using flashcards_handler_output [of m "quiz_topic w" "init_quiz (init_summarize (init_explain s))"] h by auto
  show "let r = script m (press (Some GenerateFlashcards) w) s in
      p \<in> set (model_calls (events r)) \<and> m p = Inl e \<longrightarrow>
        quiz_flashcard_output (state r) = Some (''Error: '' @ e) \<and>
        StError (''Error generating flashcards: '' @ e) \<in> set (events r) \<and>
        model_calls (events r) = [p]"
    using flashcards_handler_failure [OF h, of p e]
    by (simp add: script_flashcards [OF h t] trace_simps)
qed

theorem model_failure_stored_and_shown_once_witness:
  "explain_output (state (script failing_model (press (Some ExplainConcept) filled_widgets) used_session))
     = Some ''Error: 429 quota exceeded'' \<and>
   StError ''Error generating explanation: 429 quota exceeded''
     \<in> set (events (script failing_model (press (Some ExplainConcept) filled_widgets) used_session)) \<and>
   summarize_output (state (script failing_model (press (Some SummarizeContent) filled_widgets) used_session))
     = Some ''Error: 429 quota exceeded'' \<and>
   StError ''Error generating summary: 429 quota exceeded''
     \<in> set (events (script failing_model (press (Some SummarizeContent) filled_widgets) used_session)) \<and>
   quiz_flashcard_output (state (script failing_model (press (Some GenerateQuiz) filled_widgets) used_session))
     = Some ''Error: 429 quota exceeded'' \<and>
   StError ''Error generating quiz: 429 quota exceeded''
     \<in> set (events (script failing_model (press (Some GenerateQuiz) filled_widgets) used_session)) \<and>
   quiz_flashcard_output (state (script failing_model (press (Some GenerateFlashcards) filled_widgets) used_session))
     = Some ''Error: 429 quota exceeded'' \<and>
   StError ''Error generating flashcards: 429 quota exceeded''
     \<in> set (events (script failing_model (press (Some GenerateFlashcards) filled_widgets) used_session))"
proof -
  have calls:
    "model_calls (events (script failing_model (press (Some ExplainConcept) filled_widgets) used_session))
       = [explain_prompt ''Osmosis'']"
    "model_calls (events (script failing_model (press (Some SummarizeContent) filled_widgets) used_session))
       = [summarize_prompt ''Chapter 3'']"
    "model_calls (events (script failing_model (press (Some GenerateQuiz) filled_widgets) used_session))
       = [quiz_prompt ''Mitosis'']"
    "model_calls (events (script failing_model (press (Some GenerateFlashcards) filled_widgets) used_session))
       = [flashcards_prompt ''Mitosis'']"
    by (simp_all add: section_defs init_defs handler_defs trace_simps filled_widgets_def
          blank_widgets_def used_session_def failing_model_def Let_def MAX_CHARS_FOR_GEMINI_def)
  have f: "\<And>p. failing_model p = Inl ''429 quota exceeded''"
    by (simp add: failing_model_def)
  show ?thesis
    using model_failure_stored_and_shown_once [of failing_model filled_widgets used_session "explain_prompt ''Osmosis''" "''429 quota exceeded''"]
      model_failure_stored_and_shown_once [of failing_model filled_widgets used_session "summarize_prompt ''Chapter 3''" "''429 quota exceeded''"]
      model_failure_stored_and_shown_once [of failing_model filled_widgets used_session "quiz_prompt ''Mitosis''" "''429 quota exceeded''"]
      model_failure_stored_and_shown_once [of failing_model filled_widgets used_session "flashcards_prompt ''Mitosis''" "''429 quota exceeded''"]
    by (simp add: Let_def calls f)
qed

subsection \<open>Claim C9: an uploaded PDF takes precedence over pasted notes\<close>

text \<open>
  C9. When Summarize Content is clicked while a PDF is uploaded, the content to summarize
  is the text extracted from the PDF (nothing, when the extraction fails or finds white
  space only) and the prompt sent is built from it, whatever the notes box holds: replacing
  the pasted text by any other text gives the same session state and the same prompts. The
  summarize input slot is not written: it holds what it held before the click (created
  empty if it was not in the session state yet).
\<close>

theorem uploaded_pdf_takes_precedence_over_notes:
  assumes "pdf_uploader w = Some uploaded"
  shows "let r = script m (press (Some SummarizeContent) w) s;
             r' = script m (press (Some SummarizeContent) (w\<lparr>notes_area := other_notes\<rparr>)) s
         in fst (acquire_content w s) =
              (case extract_text_from_pdf uploaded of
                 Inl e \<Rightarrow> []
               | Inr c \<Rightarrow> if strip c = [] then [] else c) \<and>
            model_calls (events r) =
              (case extract_text_from_pdf uploaded of
                 Inl e \<Rightarrow> []
               | Inr c \<Rightarrow> if strip c = [] then [] else [summarize_prompt (take 50000 c)]) \<and>
            summarize_input (state r) = init_slot [] (summarize_input s) \<and>
            state r' = state r \<and>
            model_calls (events r') = model_calls (events r)"
proof -
  define s0 where "s0 = init_summarize (init_explain s)"
  obtain c s1 evs1 where a: "acquire_content w s0 = (c, s1, evs1)"
    by (cases "acquire_content w s0") auto
  obtain s2 evs2 where sc: "summarize_content m c s1 = (s2, evs2)"
    by (cases "summarize_content m c s1") auto
  have h: "summarize_handler m w s0 = (s2, evs1 @ evs2)"
    using a sc by (simp add: summarize_handler_def)
  have h': "summarize_handler m (w\<lparr>notes_area := other_notes\<rparr>) s0 = (s2, evs1 @ evs2)"
    using a sc acquire_content_upload(3) [OF assms, of other_notes s0]
    by (simp add: summarize_handler_def)
  obtain t where t: "summarize_output s2 = Some t"
    using summarize_content_output [of m c s1] sc by auto
  have c: "c = (case extract_text_from_pdf uploaded of
                 Inl e \<Rightarrow> []
               | Inr c \<Rightarrow> if strip c = [] then [] else c)"
    using acquire_content_upload(1) [OF assms, of s0] a by simp
  have content: "fst (acquire_content w s) = c"
    using acquire_content_fst [of w s s0] a by simp
  have q1: "model_calls evs1 = []"
    using acquire_content_no_calls [of w s0] a by simp
  have q2: "model_calls evs2 = (if c = [] then [] else [summarize_prompt (take 50000 c)])"
    using summarize_content_calls [of c m s1] summarize_content_empty [of m s1] sc by auto
  have calls: "model_calls (evs1 @ evs2) =
              (case extract_text_from_pdf uploaded of
                 Inl e \<Rightarrow> []
               | Inr c \<Rightarrow> if strip c = [] then [] else [summarize_prompt (take 50000 c)])"
    using q1 q2 c by (auto simp: model_calls_append strip_def split: sum.splits)
  have inp: "summarize_input s2 = init_slot [] (summarize_input s)"
    using acquire_content_upload(2) [OF assms, of s0] a summarize_content_input [of m c s1] sc
    by (simp add: s0_def init_summarize_def init_explain_def)
  have r: "script m (press (Some SummarizeContent) w) s =
           \<lparr>state = init_quiz s2,
            events = display_ai_output (case explain_output s of None \<Rightarrow> [] | Some v \<Rightarrow> v)
                       ''Explanation Output'' ''explain''
                     @ notes_caption (notes_area w) # (evs1 @ evs2)
                     @ display_ai_output t ''Summary Output'' ''summarize''
                     @ display_ai_output (case quiz_flashcard_output s2 of None \<Rightarrow> [] | Some v \<Rightarrow> v)
                         ''Quiz / Flashcard Output'' ''quiz'',
            ctl = Running\<rparr>"
    using script_summarize [OF h [unfolded s0_def] t] .
  have r': "script m (press (Some SummarizeContent) (w\<lparr>notes_area := other_notes\<rparr>)) s =
           \<lparr>state = init_quiz s2,
            events = display_ai_output (case explain_output s of None \<Rightarrow> [] | Some v \<Rightarrow> v)
                       ''Explanation Output'' ''explain''
                     @ notes_caption other_notes # (evs1 @ evs2)
                     @ display_ai_output t ''Summary Output'' ''summarize''
                     @ display_ai_output (case quiz_flashcard_output s2 of None \<Rightarrow> [] | Some v \<Rightarrow> v)
                         ''Quiz / Flashcard Output'' ''quiz'',
            ctl = Running\<rparr>"
    using script_summarize [OF h' [unfolded s0_def] t] by simp
  show ?thesis
    unfolding Let_def r r' content
    using calls inp c by (simp add: trace_simps init_quiz_def)
qed

theorem uploaded_pdf_takes_precedence_over_notes_witness:
  "model_calls (events (script echo_model (press (Some SummarizeContent) notes_and_pdf) used_session))
     = [summarize_prompt (''Cells'' @ [CHR 0x0A] @ ''divide'' @ [CHR 0x0A])] \<and>
   summarize_input (state (script echo_model (press (Some SummarizeContent) notes_and_pdf) used_session))
     = Some ''Chapter 3'' \<and>
   state (script echo_model (press (Some SummarizeContent) (notes_and_pdf\<lparr>notes_area := []\<rparr>)) used_session)
     = state (script echo_model (press (Some SummarizeContent) notes_and_pdf) used_session)"
proof -
  have u: "pdf_uploader notes_and_pdf = Some two_page_pdf"
    by (simp add: notes_and_pdf_def)
  have x: "extract_text_from_pdf two_page_pdf = Inr (''Cells'' @ [CHR 0x0A] @ ''divide'' @ [CHR 0x0A])"
    by (simp add: extract_text_from_pdf_def two_page_pdf_def)
  have b: "strip (''Cells'' @ [CHR 0x0A] @ ''divide'' @ [CHR 0x0A]) \<noteq> []"
    by (simp add: strip_def isspace_def)
  show ?thesis
    using uploaded_pdf_takes_precedence_over_notes [OF u, of echo_model used_session "[]"] b
    by (simp add: Let_def x init_slot_def used_session_def)
qed

subsection \<open>Claim C10: Quiz and Flashcards share one output slot\<close>

text \<open>
  C10. With a topic that is not empty, a click on Generate Quiz, and likewise a click on
  Generate Flashcards, whose model call succeeds with the text \<open>T\<close> leaves \<open>T\<close> in the one
  slot \<open>quiz_flashcard_output\<close>, whatever that slot held before (in particular what the other
  button produced), and leaves the Explain and Summarize slots as they were (a slot that was
  not in the session state yet is created empty).
\<close>

theorem quiz_and_flashcards_share_output_slot:
  assumes "quiz_topic w \<noteq> []"
  shows "(m (quiz_prompt (quiz_topic w)) = Inr T \<longrightarrow>
            (let r = script m (press (Some GenerateQuiz) w) s in
               quiz_flashcard_output (state r) = Some T \<and>
               explain_input (state r) = init_slot [] (explain_input s) \<and>
               explain_output (state r) = init_slot [] (explain_output s) \<and>
               summarize_input (state r) = init_slot [] (summarize_input s) \<and>
               summarize_output (state r) = init_slot [] (summarize_output s) \<and>
               uploaded_file (state r) = init_slot None (uploaded_file s))) \<and>
         (m (flashcards_prompt (quiz_topic w)) = Inr T \<longrightarrow>
            (let r = script m (press (Some GenerateFlashcards) w) s in
               quiz_flashcard_output (state r) = Some T \<and>
               explain_input (state r) = init_slot [] (explain_input s) \<and>
               explain_output (state r) = init_slot [] (explain_output s) \<and>
               summarize_input (state r) = init_slot [] (summarize_input s) \<and>
               summarize_output (state r) = init_slot [] (summarize_output s) \<and>
               uploaded_file (state r) = init_slot None (uploaded_file s)))"
proof (intro conjI impI)
  assume "m (quiz_prompt (quiz_topic w)) = Inr T"
  with assms
  have "quiz_handler m (quiz_topic w) (init_quiz (init_summarize (init_explain s))) =
      ((init_quiz (init_summarize (init_explain s)))
         \<lparr>quiz_topic_input := Some (quiz_topic w), quiz_flashcard_output := Some T\<rparr>,
       [StSpinner ''AI is creating a quiz...'', GenerateContent (quiz_prompt (quiz_topic w))])"
    by (simp add: quiz_handler_success)
  from script_quiz [where m = m, OF this]
  show "let r = script m (press (Some GenerateQuiz) w) s in
               quiz_flashcard_output (state r) = Some T \<and>
               explain_input (state r) = init_slot [] (explain_input s) \<and>
               explain_output (state r) = init_slot [] (explain_output s) \<and>
               summarize_input (state r) = init_slot [] (summarize_input s) \<and>
               summarize_output (state r) = init_slot [] (summarize_output s) \<and>
               uploaded_file (state r) = init_slot None (uploaded_file s)"
    by (simp add: init_explain_def init_summarize_def init_quiz_def)
next
  assume "m (flashcards_prompt (quiz_topic w)) = Inr T"
  with assms
  have "flashcards_handler m (quiz_topic w) (init_quiz (init_summarize (init_explain s))) =
      ((init_quiz (init_summarize (init_explain s)))
         \<lparr>quiz_topic_input := Some (quiz_topic w), quiz_flashcard_output := Some T\<rparr>,
       [StSpinner ''AI is making flashcards...'', GenerateContent (flashcards_prompt (quiz_topic w))])"
    by (simp add: flashcards_handler_success)
  from script_flashcards [where m = m, OF this]
  show "let r = script m (press (Some GenerateFlashcards) w) s in
               quiz_flashcard_output (state r) = Some T \<and>
               explain_input (state r) = init_slot [] (explain_input s) \<and>
               explain_output (state r) = init_slot [] (explain_output s) \<and>
               summarize_input (state r) = init_slot [] (summarize_input s) \<and>
               summarize_output (state r) = init_slot [] (summarize_output s) \<and>
               uploaded_file (state r) = init_slot None (uploaded_file s)"
    by (simp add: init_explain_def init_summarize_def init_quiz_def)
qed

theorem quiz_and_flashcards_share_output_slot_witness:
  "quiz_flashcard_output (state (script echo_model (press (Some GenerateFlashcards) filled_widgets) used_session))
     = Some (flashcards_prompt ''Mitosis'') \<and>
   quiz_flashcard_output (state (script echo_model (press (Some GenerateQuiz) filled_widgets)
       (state (script echo_model (press (Some GenerateFlashcards) filled_widgets) used_session))))
     = Some (quiz_prompt ''Mitosis'') \<and>
   explain_input (state (script echo_model (press (Some GenerateQuiz) filled_widgets) used_session))
     = Some ''Osmosis'' \<and>
   explain_output (state (script echo_model (press (Some GenerateQuiz) filled_widgets) used_session))
     = Some ''Water moves.'' \<and>
   summarize_input (state (script echo_model (press (Some GenerateQuiz) filled_widgets) used_session))
     = Some ''Chapter 3'' \<and>
   summarize_output (state (script echo_model (press (Some GenerateQuiz) filled_widgets) used_session))
     = Some ''Cells divide.'' \<and>
   uploaded_file (state (script echo_model (press (Some GenerateQuiz) filled_widgets) used_session))
     = Some None"
proof -
  have t: "quiz_topic filled_widgets \<noteq> []" "quiz_topic filled_widgets = ''Mitosis''"
    by (simp_all add: filled_widgets_def blank_widgets_def)
  have e: "\<And>p. echo_model p = Inr p"
    by (simp add: echo_model_def)
  show ?thesis
    using
      quiz_and_flashcards_share_output_slot [OF t(1), where m = echo_model and s = used_session and T = "flashcards_prompt ''Mitosis''"]
      quiz_and_flashcards_share_output_slot [OF t(1), where m = echo_model and s = used_session and T = "quiz_prompt ''Mitosis''"]
      quiz_and_flashcards_share_output_slot [OF t(1), where m = echo_model and T = "quiz_prompt ''Mitosis''"
             and s = "state (script echo_model (press (Some GenerateFlashcards) filled_widgets) used_session)"]
    by (simp add: Let_def t(2) e init_slot_def used_session_def)
qed

end
